theory Spec2Isabelle
  imports Complex_Main "HOL-Library.Multiset"
begin

section \<open>Messages shown to the operator\<close>

text \<open>
  \<open>app.py\<close> reports through \<open>st.warning\<close>, \<open>st.error\<close>, \<open>st.info\<close> and \<open>st.success\<close>.
  Each call is one notice; a function that reports returns the notices it produced, in
  order, next to its value. The pictograph that opens a message in the source is left
  out of the text; the \<open>logger\<close> calls write to the process log only and are left out.
\<close>

datatype notice = Warning string | Error string | Info string | Success string

section \<open>Uploaded files\<close>

text \<open>
  An uploaded file as \<open>app.py\<close> reads it: \<open>file.name\<close>, \<open>file.size\<close>, \<open>file.type\<close> and
  the bytes behind \<open>file.read()\<close>. The bytes are opaque, a number names a byte sequence.
  The \<open>BytesIO\<close> that \<open>compress_image\<close> returns is given the same attributes, its size
  being the length of its buffer. A file is read from its start unless the imaging
  library has moved its read pointer, see \<open>read_position\<close>.
\<close>

record uploaded_file =
  file_name :: string
  file_size :: nat
  file_type :: string
  file_bytes :: nat

subsection \<open>validate_image (app.py, lines 52-68)\<close>

definition allowed_types :: "string list" where
  "allowed_types = [''image/png'', ''image/jpeg'', ''image/jpg'', ''image/webp'']"

definition validate_image :: "uploaded_file option \<Rightarrow> bool \<times> notice list" where
  "validate_image file =
     (case file of
        None \<Rightarrow> (True, [])
      | Some f \<Rightarrow>
          if file_size f > 5 * 1024 * 1024
          then (False, [Warning (file_name f @ '' is too large (max 5MB). Image skipped.'')])
          else if file_type f \<notin> set allowed_types
          then (False, [Warning (file_name f @ '' has invalid type. Only PNG/JPG/WEBP allowed.'')])
          else (True, []))"

subsection \<open>The imaging library\<close>

text \<open>
  \<open>compress_image\<close> calls three operations of the imaging library: \<open>Image.open\<close>,
  \<open>img.convert\<close> and \<open>img.save\<close>. They are parameters of the model. Each may raise, which
  is the value \<open>None\<close>; \<open>save\<close> yields the encoded bytes and their count. The calls read
  the file they are given: \<open>left_at\<close> is the position at which they leave the read
  pointer of a file with the given bytes when one of them raises.
\<close>

record image =
  mode :: string
  pixels :: nat

record pil =
  Image_open :: "nat \<Rightarrow> image option"
  convert :: "image \<Rightarrow> string \<Rightarrow> image option"
  save :: "image \<Rightarrow> string \<Rightarrow> nat \<Rightarrow> bool \<Rightarrow> (nat \<times> nat) option"
  left_at :: "nat \<Rightarrow> nat"

subsection \<open>Text helpers\<close>

text \<open>\<open>s.rsplit('.', 1)[0]\<close>: the text before the last dot, all of \<open>s\<close> when it has none.\<close>

definition rsplit_head :: "string \<Rightarrow> string" where
  "rsplit_head s =
     (if CHR ''.'' \<in> set s then rev (tl (dropWhile (\<lambda>c. c \<noteq> CHR ''.'') (rev s))) else s)"

text \<open>\<open>s.split('.')[-1]\<close>: the text after the last dot, all of \<open>s\<close> when it has none.\<close>

definition split_last :: "string \<Rightarrow> string" where
  "split_last s = rev (takeWhile (\<lambda>c. c \<noteq> CHR ''.'') (rev s))"

fun digits :: "nat \<Rightarrow> string" where
  "digits n =
     (if n < 10 then [''0123456789'' ! n]
      else digits (n div 10) @ [''0123456789'' ! (n mod 10)])"

declare digits.simps [simp del]

text \<open>
  \<open>f"{n/1024:.0f}"\<close> for a byte count \<open>n\<close>: the quotient rounded to the nearest integer,
  a tie going to the even one.
\<close>

definition kb :: "nat \<Rightarrow> string" where
  "kb n =
     (let q = n div 1024; r = n mod 1024
      in digits (if r > 512 \<or> (r = 512 \<and> odd q) then q + 1 else q))"

subsection \<open>compress_image (app.py, lines 70-96)\<close>

definition compress_image ::
  "pil \<Rightarrow> nat \<Rightarrow> uploaded_file option \<Rightarrow> uploaded_file option \<times> notice list" where
  "compress_image lib max_size_mb file =
     (case file of
        None \<Rightarrow> (None, [])
      | Some f \<Rightarrow>
          if file_size f \<le> max_size_mb * 1024 * 1024 then (Some f, [])
          else
            (case Image_open lib (file_bytes f) of
               None \<Rightarrow> (Some f, [])
             | Some img \<Rightarrow>
                 (case (if mode img \<in> {''RGBA'', ''P''} then convert lib img ''RGB''
                        else Some img) of
                    None \<Rightarrow> (Some f, [])
                  | Some img' \<Rightarrow>
                      (case save lib img' ''JPEG'' 85 True of
                         None \<Rightarrow> (Some f, [])
                       | Some (buf, nbytes) \<Rightarrow>
                           (Some \<lparr>file_name = rsplit_head (file_name f) @ ''.jpg'',
                                  file_size = nbytes,
                                  file_type = ''image/jpeg'',
                                  file_bytes = buf\<rparr>,
                            [Info (''Compressed '' @ file_name f @ '' from ''
                                   @ kb (file_size f) @ ''KB to '' @ kb nbytes @ ''KB'')])))))"


text \<open>
  Where the read pointer of the file that \<open>compress_image\<close> returns stands. The source
  never rewinds the uploaded file: on the path through \<open>except\<close> (lines 94-96) the file
  comes back with its pointer where the library left it. A file that was not opened
  stands at its start, and so does the new buffer after \<open>output.seek(0)\<close>.
\<close>

definition read_position :: "pil \<Rightarrow> nat \<Rightarrow> uploaded_file option \<Rightarrow> nat" where
  "read_position lib max_size_mb file =
     (case file of
        None \<Rightarrow> 0
      | Some f \<Rightarrow>
          if file_size f \<le> max_size_mb * 1024 * 1024 then 0
          else
            (case Image_open lib (file_bytes f) of
               None \<Rightarrow> left_at lib (file_bytes f)
             | Some img \<Rightarrow>
                 (case (if mode img \<in> {''RGBA'', ''P''} then convert lib img ''RGB''
                        else Some img) of
                    None \<Rightarrow> left_at lib (file_bytes f)
                  | Some img' \<Rightarrow>
                      (case save lib img' ''JPEG'' 85 True of
                         None \<Rightarrow> left_at lib (file_bytes f)
                       | Some (buf, nbytes) \<Rightarrow> 0))))"


section \<open>Product records\<close>

text \<open>
  The dictionaries of \<open>app.py\<close> have fixed keys and are records here. An image entry
  holds the uploaded file until the save handler replaces it by what
  \<open>upload_image_to_supabase\<close> returned; the type parameter \<open>'i\<close> is \<open>uploaded_file\<close> before
  and \<open>asset\<close> after, and \<open>None\<close> is Python's \<open>None\<close> in both. Prices and weights are the
  floats of \<open>st.number_input\<close>, of which the code only tests whether they are zero.
\<close>

record asset =
  filename :: string
  path :: string
  url :: string

record 'i variation =
  var_name :: string
  var_price :: real
  var_sku :: string
  var_stock :: int
  var_image :: "'i option"

record 'i edition =
  heading :: string
  subtitle :: string
  ed_short_description :: string
  grains :: string
  grade :: string
  grain_description :: string
  ed_image :: "'i option"

record 'i laser_engraving =
  laser_enabled :: bool
  price :: real
  max_chars :: int
  laser_image :: "'i option"

text \<open>\<open>handle_shapes\<close> is the list of the labels, each \<open>{'label': shape}\<close> in the source.\<close>

record 'i deep_custom =
  enabled :: bool
  edition :: "'i edition"
  handle_shapes :: "string list"
  laser_engraving :: "'i laser_engraving"

text \<open>\<open>deep_custom_data\<close> is the empty dictionary \<open>{}\<close> or the filled one.\<close>

datatype 'i custom_dict = EmptyDict | Customization "'i deep_custom"

record meta =
  timestamp :: nat
  complete_data :: string

record product_data =
  product_name :: string
  product_type :: string
  sku :: string
  regular_price :: real
  sale_price :: "real option"
  stock_status :: string
  stock_quantity :: int
  weight :: "real option"
  category :: string
  short_description :: string
  full_description :: string
  main_image :: "asset option"
  gallery_images :: "asset list"
  variations :: "asset variation list option"
  deep_customization :: "asset custom_dict option"
  product_meta :: meta

text \<open>
  A row of the \<open>products\<close> table: the inserted columns with the identifier and the
  creation time the store assigns.
\<close>

record row =
  row_id :: string
  created_at :: nat
  row_data :: product_data

section \<open>The remote store\<close>

text \<open>
  The state that the functions of \<open>app.py\<close> read and change through the \<open>supabase\<close>
  client: the bucket \<open>product-images\<close>, the table \<open>products\<close>, the clock, the number of
  identifiers drawn so far, and \<open>faults\<close>, the outcome of the coming remote calls in
  order (\<open>Some msg\<close>: the call raises an exception whose text is \<open>msg\<close>; \<open>None\<close>, or
  nothing left: it answers). Every remote call takes the next outcome. \<open>returns_data\<close>
  tells whether the answer of the store to an insert carries the inserted row. An object
  of the bucket is the bytes that \<open>file.read()\<close> gave: those of the byte sequence
  \<open>object_bytes\<close> from the position \<open>read_from\<close> on.
\<close>

record stored_object =
  object_bytes :: nat
  read_from :: nat
  content_type :: string

record world =
  faults :: "string option list"
  draws :: nat
  now :: nat
  bucket :: "string \<rightharpoonup> stored_object"
  products :: "row list"
  returns_data :: bool

text \<open>
  What the code calls but does not define: the imaging library, \<open>uuid.uuid4\<close> (its
  \<open>n\<close>th draw), \<open>get_public_url\<close>, and the store's reading of an \<open>or_\<close> filter text.
\<close>

record env =
  lib :: pil
  uuid4 :: "nat \<Rightarrow> string"
  get_public_url :: "string \<Rightarrow> string"
  or_filter :: "string \<Rightarrow> row \<Rightarrow> bool"

definition remote_call :: "world \<Rightarrow> string option \<times> world" where
  "remote_call w =
     (case faults w of [] \<Rightarrow> (None, w) | x # xs \<Rightarrow> (x, w\<lparr>faults := xs\<rparr>))"

text \<open>\<open>.order('created_at', desc=...)\<close> as the store answers it.\<close>

definition order_created_at :: "bool \<Rightarrow> row list \<Rightarrow> row list" where
  "order_created_at desc rows =
     (if desc then rev (sort_key created_at rows) else sort_key created_at rows)"

subsection \<open>upload_image_to_supabase (app.py, lines 102-146)\<close>

definition upload_image_to_supabase ::
  "env \<Rightarrow> uploaded_file option \<Rightarrow> string \<Rightarrow> world \<Rightarrow> asset option \<times> notice list \<times> world" where
  "upload_image_to_supabase e file folder w =
     (case file of
        None \<Rightarrow> (None, [], w)
      | Some f \<Rightarrow>
          (case validate_image (Some f) of
             (ok, ns1) \<Rightarrow>
               if \<not> ok then (None, ns1, w)
               else
                 (case compress_image (lib e) 1 (Some f) of
                    (None, ns2) \<Rightarrow> (None, ns1 @ ns2, w)
                  | (Some g, ns2) \<Rightarrow>
                      (let file_ext = split_last (file_name g);
                           unique_name = folder @ ''/'' @ uuid4 e (draws w) @ ''.'' @ file_ext;
                           w1 = w\<lparr>draws := draws w + 1\<rparr>
                       in case remote_call w1 of
                            (Some msg, w2) \<Rightarrow>
                              (None,
                               ns1 @ ns2 @ [Error (''Error uploading '' @ file_name g @ '': ''
                                                   @ take 100 msg)],
                               w2)
                          | (None, w2) \<Rightarrow>
                              (Some \<lparr>filename = file_name g, path = unique_name,
                                     url = get_public_url e unique_name\<rparr>,
                               ns1 @ ns2,
                               w2\<lparr>bucket := (bucket w2)(unique_name \<mapsto>
                                     \<lparr>object_bytes = file_bytes g,
                                      read_from = read_position (lib e) 1 (Some f),
                                      content_type = file_type g\<rparr>)\<rparr>)))))"

subsection \<open>The persistence functions (app.py, lines 148-198)\<close>

text \<open>
  Each function makes one remote call inside \<open>try\<close>. An insert that answers has added
  the row with the identifier and the creation time of the store; \<open>result.data\<close> holds
  that row, or nothing, and then line 154 returns \<open>None\<close> without a message. A delete
  that answers has removed the rows with the identifier, none when there is none.
\<close>

definition save_product_to_supabase ::
  "env \<Rightarrow> product_data \<Rightarrow> world \<Rightarrow> row option \<times> notice list \<times> world" where
  "save_product_to_supabase e pd w =
     (case remote_call w of
        (Some msg, w1) \<Rightarrow> (None, [Error (''Error saving product: '' @ take 200 msg)], w1)
      | (None, w1) \<Rightarrow>
          (let r = \<lparr>row_id = uuid4 e (draws w1), created_at = now w1, row_data = pd\<rparr>
           in (if returns_data w1 then Some r else None, [],
               w1\<lparr>draws := draws w1 + 1, products := products w1 @ [r]\<rparr>)))"

definition get_all_products_from_supabase :: "world \<Rightarrow> row list \<times> notice list \<times> world" where
  "get_all_products_from_supabase w =
     (case remote_call w of
        (Some msg, w1) \<Rightarrow> ([], [Error (''Error fetching products: '' @ take 100 msg)], w1)
      | (None, w1) \<Rightarrow> (order_created_at True (products w1), [], w1))"

definition delete_product_from_supabase ::
  "string \<Rightarrow> world \<Rightarrow> bool \<times> notice list \<times> world" where
  "delete_product_from_supabase product_id w =
     (case remote_call w of
        (Some msg, w1) \<Rightarrow> (False, [Error (''Error deleting product: '' @ take 100 msg)], w1)
      | (None, w1) \<Rightarrow>
          (True, [], w1\<lparr>products := filter (\<lambda>r. row_id r \<noteq> product_id) (products w1)\<rparr>))"


section \<open>The "Add New Product" page\<close>

text \<open>
  The values of the widgets when the page runs (app.py, lines 446-595). The widgets of
  the variation and customization sections exist only for their product type; their
  values are read only then.
\<close>

record variation_widgets =
  w_var_name :: string
  w_var_price :: real
  w_var_sku :: string
  w_var_stock :: int
  w_var_image :: "uploaded_file option"

record form =
  w_product_type :: string
  w_product_name :: string
  w_sku :: string
  w_regular_price :: real
  w_sale_price :: real
  w_stock_status :: string
  w_stock_quantity :: int
  w_weight :: real
  w_product_category :: string
  w_short_description :: string
  w_full_description :: string
  w_main_image :: "uploaded_file option"
  w_gallery_images :: "uploaded_file list"
  w_variations :: "variation_widgets list"
  w_enable_deep_custom :: bool
  w_edition_heading :: string
  w_edition_subtitle :: string
  w_edition_image :: "uploaded_file option"
  w_short_edition_desc :: string
  w_grains :: string
  w_grade :: string
  w_grain_description :: string
  w_shapes :: "string list"
  w_enable_laser :: bool
  w_laser_price :: real
  w_laser_max_chars :: int
  w_laser_image :: "uploaded_file option"

definition variable_product :: string where
  "variable_product = ''Variable Product''"

definition cricket_bat :: string where
  "cricket_bat = ''Cricket Bat (Deep Customization)''"

text \<open>\<open>variations_data\<close> as lines 499-527 leave it.\<close>

definition variations_data :: "form \<Rightarrow> uploaded_file variation list" where
  "variations_data f =
     (if w_product_type f = variable_product
      then map (\<lambda>v. \<lparr>var_name = w_var_name v, var_price = w_var_price v,
                      var_sku = w_var_sku v, var_stock = w_var_stock v,
                      var_image = w_var_image v\<rparr>) (w_variations f)
      else [])"

text \<open>\<open>deep_custom_data\<close> as lines 532-595 leave it.\<close>

definition deep_custom_data :: "form \<Rightarrow> uploaded_file custom_dict" where
  "deep_custom_data f =
     (if w_product_type f = cricket_bat
      then (if w_enable_deep_custom f
            then Customization
                   \<lparr>enabled = True,
                    edition = \<lparr>heading = w_edition_heading f,
                               subtitle = w_edition_subtitle f,
                               ed_short_description = w_short_edition_desc f,
                               grains = w_grains f,
                               grade = w_grade f,
                               grain_description = w_grain_description f,
                               ed_image = w_edition_image f\<rparr>,
                    handle_shapes = filter (\<lambda>shape. shape \<noteq> []) (w_shapes f),
                    laser_engraving =
                      \<lparr>laser_enabled = w_enable_laser f,
                       price = (if w_enable_laser f then w_laser_price f else 0),
                       max_chars = (if w_enable_laser f then w_laser_max_chars f else 0),
                       laser_image = (if w_enable_laser f then w_laser_image f else None)\<rparr>\<rparr>
            else EmptyDict)
      else EmptyDict)"

subsection \<open>The save handler (app.py, lines 603-724)\<close>

text \<open>The gallery loop of lines 622-628; \<open>gallery_data\<close> is the accumulator.\<close>

fun upload_gallery ::
  "env \<Rightarrow> uploaded_file list \<Rightarrow> asset list \<Rightarrow> world \<Rightarrow> asset list \<times> notice list \<times> world" where
  "upload_gallery e [] gallery_data w = (gallery_data, [], w)"
| "upload_gallery e (img # imgs) gallery_data w =
     (case upload_image_to_supabase e (Some img) ''products/gallery'' w of
        (img_data, ns, w1) \<Rightarrow>
          (case upload_gallery e imgs
                  (case img_data of None \<Rightarrow> gallery_data | Some a \<Rightarrow> gallery_data @ [a]) w1 of
             (g, ns', w2) \<Rightarrow> (g, ns @ ns', w2)))"

text \<open>The variation loop of lines 636-638.\<close>

fun upload_variations ::
  "env \<Rightarrow> uploaded_file variation list \<Rightarrow> world
   \<Rightarrow> asset variation list \<times> notice list \<times> world" where
  "upload_variations e [] w = ([], [], w)"
| "upload_variations e (var # vars) w =
     (case (case var_image var of
              None \<Rightarrow> (None, [], w)
            | Some img \<Rightarrow> upload_image_to_supabase e (Some img) ''products/variations'' w) of
        (img_data, ns, w1) \<Rightarrow>
          (case upload_variations e vars w1 of
             (vs, ns', w2) \<Rightarrow>
               (\<lparr>var_name = var_name var, var_price = var_price var, var_sku = var_sku var,
                 var_stock = var_stock var, var_image = img_data\<rparr> # vs,
                ns @ ns', w2)))"

text \<open>
  Lines 644-653, run when the type is the cricket bat and the customization is enabled,
  which is when \<open>deep_custom_data\<close> is the filled dictionary.
\<close>

definition upload_customization ::
  "env \<Rightarrow> uploaded_file deep_custom \<Rightarrow> world \<Rightarrow> asset deep_custom \<times> notice list \<times> world" where
  "upload_customization e d w =
     (case (case ed_image (edition d) of
              None \<Rightarrow> (None, [], w)
            | Some img \<Rightarrow> upload_image_to_supabase e (Some img) ''products/edition'' w) of
        (ed_data, ns, w1) \<Rightarrow>
          (case (case laser_image (laser_engraving d) of
                   None \<Rightarrow> (None, [], w1)
                 | Some img \<Rightarrow> upload_image_to_supabase e (Some img) ''products/laser'' w1) of
             (laser_data, ns', w2) \<Rightarrow>
               (\<lparr>enabled = enabled d,
                 edition = \<lparr>heading = heading (edition d),
                            subtitle = subtitle (edition d),
                            ed_short_description = ed_short_description (edition d),
                            grains = grains (edition d),
                            grade = grade (edition d),
                            grain_description = grain_description (edition d),
                            ed_image = ed_data\<rparr>,
                 handle_shapes = handle_shapes d,
                 laser_engraving = \<lparr>laser_enabled = laser_enabled (laser_engraving d),
                                    price = price (laser_engraving d),
                                    max_chars = max_chars (laser_engraving d),
                                    laser_image = laser_data\<rparr>\<rparr>,
                ns @ ns', w2)))"

text \<open>The dictionary \<open>product_data\<close> of lines 657-677, \<open>ts\<close> being \<open>datetime.now()\<close>.\<close>

definition compile_product_data ::
  "form \<Rightarrow> asset option \<Rightarrow> asset list \<Rightarrow> asset variation list \<Rightarrow> asset custom_dict \<Rightarrow> nat
   \<Rightarrow> product_data" where
  "compile_product_data f main_image_data gallery_data variations_data' deep_custom_data' ts =
     \<lparr>product_name = w_product_name f,
      product_type = w_product_type f,
      sku = w_sku f,
      regular_price = w_regular_price f,
      sale_price = (if w_sale_price f \<noteq> 0 then Some (w_sale_price f) else None),
      stock_status = w_stock_status f,
      stock_quantity = w_stock_quantity f,
      weight = (if w_weight f \<noteq> 0 then Some (w_weight f) else None),
      category = w_product_category f,
      short_description = w_short_description f,
      full_description = w_full_description f,
      main_image = main_image_data,
      gallery_images = gallery_data,
      variations = (if w_product_type f = variable_product
                    then Some variations_data' else None),
      deep_customization = (if w_product_type f = cricket_bat
                            then Some deep_custom_data' else None),
      product_meta = \<lparr>timestamp = ts,
                      complete_data = ''Full product structure here''\<rparr>\<rparr>"

text \<open>
  What pressing the button ends in: nothing was handed to the store, or \<open>product_data\<close>
  was handed to \<open>save_product_to_supabase\<close>, which returned the row or \<open>None\<close>. The
  progress bar, the status line and the details shown after a successful save are left
  out. No call in the \<open>try\<close> block of the handler raises in this model, so its \<open>except\<close>
  branch is not a branch here.
\<close>

datatype outcome = NotSubmitted | Submitted product_data "row option"

definition save_to_database ::
  "env \<Rightarrow> bool \<Rightarrow> form \<Rightarrow> world \<Rightarrow> outcome \<times> notice list \<times> world" where
  "save_to_database e SUPABASE_CONNECTED f w =
     (if w_product_name f = [] \<or> w_regular_price f = 0
      then (NotSubmitted, [Error ''Please fill in Product Name and Regular Price''], w)
      else if \<not> SUPABASE_CONNECTED
      then (NotSubmitted, [Error ''Database not connected. Check setup.''], w)
      else
        (case upload_image_to_supabase e (w_main_image f) ''products/main'' w of
           (main_image_data, ns1, w1) \<Rightarrow>
        (case upload_gallery e (w_gallery_images f) [] w1 of
           (gallery_data, ns2, w2) \<Rightarrow>
        (case (if w_product_type f = variable_product
               then upload_variations e (variations_data f) w2
               else ([], [], w2)) of
           (variations_data', ns3, w3) \<Rightarrow>
        (case (if w_product_type f = cricket_bat \<and> w_enable_deep_custom f
               then (case deep_custom_data f of
                       Customization d \<Rightarrow>
                         (case upload_customization e d w3 of
                            (d', ns, w') \<Rightarrow> (Customization d', ns, w'))
                     | EmptyDict \<Rightarrow> (EmptyDict, [], w3))
               else (EmptyDict, [], w3)) of
           (deep_custom_data', ns4, w4) \<Rightarrow>
        (let product_data =
               compile_product_data f main_image_data gallery_data variations_data'
                 deep_custom_data' (now w4)
         in case save_product_to_supabase e product_data w4 of
              (result, ns5, w5) \<Rightarrow>
                (Submitted product_data result,
                 ns1 @ ns2 @ ns3 @ ns4 @ ns5 @
                 (case result of
                    Some r \<Rightarrow> [Success (''Product '' @ [CHR 0x27] @ w_product_name f
                                         @ [CHR 0x27] @ '' saved successfully to database!'')]
                  | None \<Rightarrow> [Error ''Failed to save product. Check error messages above.'']),
                 w5)))))))"

section \<open>The spreadsheet export (app.py, lines 911-936)\<close>

text \<open>
  A data frame is its column names and its rows of cells; a workbook is the list of its
  named sheets in the order \<open>to_excel\<close> wrote them. \<open>df\<close>, the basic table built before
  the writer is opened, is a parameter.
\<close>

datatype cell = Text string | Number real

record sheet =
  sheet_name :: string
  columns :: "string list"
  cells :: "cell list list"

definition bat_columns :: "string list" where
  "bat_columns = [''Product Name'', ''SKU'', ''Edition Heading'', ''Grains'', ''Grade'',
                  ''Laser Engraving'', ''Laser Price'']"

text \<open>The loop of lines 919-932: one entry of \<open>bat_data\<close> for a truthy \<open>deep_custom\<close>.\<close>

fun bat_data :: "row list \<Rightarrow> cell list list" where
  "bat_data [] = []"
| "bat_data (product # rest) =
     (case deep_customization (row_data product) of
        Some (Customization deep_custom) \<Rightarrow>
          [Text (product_name (row_data product)),
           Text (sku (row_data product)),
           Text (heading (edition deep_custom)),
           Text (grains (edition deep_custom)),
           Text (grade (edition deep_custom)),
           Text (if laser_enabled (laser_engraving deep_custom) then ''Yes'' else ''No''),
           Number (price (laser_engraving deep_custom))] # bat_data rest
      | _ \<Rightarrow> bat_data rest)"

definition excel_export :: "sheet \<Rightarrow> row list \<Rightarrow> sheet list" where
  "excel_export df products_list =
     (let bat_products = filter (\<lambda>p. product_type (row_data p) = cricket_bat) products_list
      in df\<lparr>sheet_name := ''Products''\<rparr> #
         (if bat_products \<noteq> []
          then (if bat_data bat_products \<noteq> []
                then [\<lparr>sheet_name = ''Bat Customization'', columns = bat_columns,
                       cells = bat_data bat_products\<rparr>]
                else [])
          else []))"

section \<open>Sequential uploads in the words of the specification\<close>

text \<open>
  The specification has the images of one save uploaded one after the other, each on its
  own: a failure of one neither stops the later ones nor undoes the earlier ones, and the
  record is saved when all have been tried. \<open>sent_files\<close> lists the image entries of a
  form in the order of the handler: the main image, the gallery images, the variation
  images of a variable product, the edition image and the laser image of a bat with the
  customization enabled. An entry is tried against the outcomes of the remote calls to
  come: no file and a file that validation rejects fail without a remote call; a valid
  file takes the next outcome and succeeds when it is an answer. \<open>succeeded\<close> gives the
  fate of each entry, \<open>left_over\<close> the outcomes that remain for the insert.
\<close>

fun succeeded :: "uploaded_file option list \<Rightarrow> string option list \<Rightarrow> bool list" where
  "succeeded [] s = []"
| "succeeded (None # files) s = False # succeeded files s"
| "succeeded (Some g # files) s =
     (if fst (validate_image (Some g))
      then (case s of
              [] \<Rightarrow> True # succeeded files []
            | x # xs \<Rightarrow> (x = None) # succeeded files xs)
      else False # succeeded files s)"

fun left_over :: "uploaded_file option list \<Rightarrow> string option list \<Rightarrow> string option list" where
  "left_over [] s = s"
| "left_over (None # files) s = left_over files s"
| "left_over (Some g # files) s =
     (if fst (validate_image (Some g))
      then (case s of [] \<Rightarrow> left_over files [] | x # xs \<Rightarrow> left_over files xs)
      else left_over files s)"

definition sent_files :: "form \<Rightarrow> uploaded_file option list" where
  "sent_files f =
     [w_main_image f] @ map Some (w_gallery_images f) @
     (if w_product_type f = variable_product then map w_var_image (w_variations f) else []) @
     (if w_product_type f = cricket_bat \<and> w_enable_deep_custom f
      then [w_edition_image f, if w_enable_laser f then w_laser_image f else None]
      else [])"

text \<open>The image entries of the variations and of the customization of a record.\<close>

definition variation_images :: "product_data \<Rightarrow> asset option list" where
  "variation_images pd = (case variations pd of None \<Rightarrow> [] | Some vs \<Rightarrow> map var_image vs)"

definition customization_images :: "product_data \<Rightarrow> asset option list" where
  "customization_images pd =
     (case deep_customization pd of
        Some (Customization d) \<Rightarrow> [ed_image (edition d), laser_image (laser_engraving d)]
      | _ \<Rightarrow> [])"

definition image_fields :: "product_data \<Rightarrow> asset option list" where
  "image_fields pd =
     main_image pd # map Some (gallery_images pd) @ variation_images pd
       @ customization_images pd"

section \<open>A relation between stores\<close>

text \<open>
  \<open>carried_on w w'\<close>: \<open>w'\<close> has the table, the clock and the insert answers of \<open>w\<close> and
  every object of its bucket, and no failure is ahead in \<open>w'\<close> when none is ahead in \<open>w\<close>. The uploads of the
  save handler relate the store before to the store after in this way.
\<close>

definition carried_on :: "world \<Rightarrow> world \<Rightarrow> bool" where
  "carried_on w w' \<longleftrightarrow>
     products w' = products w \<and> now w' = now w \<and> returns_data w' = returns_data w \<and>
     dom (bucket w) \<subseteq> dom (bucket w') \<and> (faults w = [] \<longrightarrow> faults w' = [])"

section \<open>Sample inputs\<close>

text \<open>
  An imaging library that opens every byte sequence but sequence \<open>0\<close> as an \<open>RGBA\<close>
  picture and writes an \<open>RGB\<close> picture as a JPEG of six mebibytes, and two files of two
  mebibytes declared as PNG, the second holding bytes that are no picture.
\<close>

definition sample_lib :: pil where
  "sample_lib =
     \<lparr>Image_open = (\<lambda>b. if b = 0 then None else Some \<lparr>mode = ''RGBA'', pixels = b\<rparr>),
      convert = (\<lambda>img m. Some (img\<lparr>mode := m\<rparr>)),
      save = (\<lambda>img fmt quality optimize.
                if fmt = ''JPEG'' \<and> mode img = ''RGB''
                then Some (pixels img + quality, 6 * 1024 * 1024) else None),
      left_at = (\<lambda>b. 16)\<rparr>"

definition photo :: uploaded_file where
  "photo = \<lparr>file_name = ''bat.front.png'', file_size = 2 * 1024 * 1024,
            file_type = ''image/png'', file_bytes = 7\<rparr>"

definition broken_photo :: uploaded_file where
  "broken_photo = \<lparr>file_name = ''bat.png'', file_size = 2 * 1024 * 1024,
                   file_type = ''image/png'', file_bytes = 0\<rparr>"

text \<open>
  An environment built on the sample library, a store that holds nothing and never
  fails, a simple product and rows that hold it.
\<close>

definition sample_env :: env where
  "sample_env =
     \<lparr>lib = sample_lib,
      uuid4 = (\<lambda>n. ''id'' @ digits n),
      get_public_url = (\<lambda>p. ''https://store.example/'' @ p),
      or_filter = (\<lambda>s r. True)\<rparr>"

definition empty_world :: world where
  "empty_world =
     \<lparr>faults = [], draws = 0, now = 100, bucket = Map.empty, products = [],
      returns_data = True\<rparr>"

definition plain_product :: product_data where
  "plain_product =
     \<lparr>product_name = ''Reserve Bat'', product_type = ''Simple Product'', sku = ''BAT-001'',
      regular_price = 4999, sale_price = None, stock_status = ''In Stock'',
      stock_quantity = 3, weight = None, category = ''Bats'', short_description = [],
      full_description = [], main_image = None, gallery_images = [], variations = None,
      deep_customization = None,
      product_meta = \<lparr>timestamp = 100, complete_data = ''Full product structure here''\<rparr>\<rparr>"

definition stored_row :: "string \<Rightarrow> nat \<Rightarrow> row" where
  "stored_row i t = \<lparr>row_id = i, created_at = t, row_data = plain_product\<rparr>"

text \<open>
  The widgets of a page filled for a bat: a main image of six mebibytes, one small
  gallery image, one variation, the customization enabled with two shape fields of which
  the second is empty. \<open>gallery_asset\<close> is what the upload of the gallery image returns
  when it is the first upload to draw an identifier.
\<close>

definition sample_form :: form where
  "sample_form =
     \<lparr>w_product_type = ''Simple Product'',
      w_product_name = ''Reserve Bat'',
      w_sku = ''BAT-001'',
      w_regular_price = 4999,
      w_sale_price = 0,
      w_stock_status = ''In Stock'',
      w_stock_quantity = 3,
      w_weight = 0,
      w_product_category = ''Bats'',
      w_short_description = [],
      w_full_description = [],
      w_main_image = Some (photo\<lparr>file_size := 6 * 1024 * 1024\<rparr>),
      w_gallery_images = [photo\<lparr>file_size := 4096\<rparr>],
      w_variations = [\<lparr>w_var_name = ''Size: Large'', w_var_price = 5499,
                       w_var_sku = ''BAT-001-L'', w_var_stock = 1, w_var_image = None\<rparr>],
      w_enable_deep_custom = True,
      w_edition_heading = ''Reserve Edition'',
      w_edition_subtitle = [],
      w_edition_image = None,
      w_short_edition_desc = [],
      w_grains = ''6-8 Grains'',
      w_grade = ''Grade A+'',
      w_grain_description = [],
      w_shapes = [''Round'', []],
      w_enable_laser = True,
      w_laser_price = 5,
      w_laser_max_chars = 8,
      w_laser_image = None\<rparr>"

definition gallery_asset :: asset where
  "gallery_asset =
     \<lparr>filename = ''bat.front.png'', path = ''products/gallery/id0.png'',
      url = ''https://store.example/products/gallery/id0.png''\<rparr>"

definition sample_customization :: "asset deep_custom" where
  "sample_customization =
     \<lparr>enabled = True,
      edition = \<lparr>heading = ''Reserve Edition'', subtitle = [], ed_short_description = [],
                 grains = ''6-8 Grains'', grade = ''Grade A+'', grain_description = [],
                 ed_image = None\<rparr>,
      handle_shapes = [''Round''],
      laser_engraving = \<lparr>laser_enabled = True, price = 5, max_chars = 8,
                         laser_image = None\<rparr>\<rparr>"

definition sample_variation :: "asset variation" where
  "sample_variation =
     \<lparr>var_name = ''Size: Large'', var_price = 5499, var_sku = ''BAT-001-L'',
      var_stock = 1, var_image = None\<rparr>"

text \<open>
  The basic table of one product, and two rows of the cricket bat type: one saved with
  the customization enabled, one saved with it disabled, whose \<open>deep_customization\<close>
  is the empty dictionary.
\<close>

definition basic_table :: sheet where
  "basic_table =
     \<lparr>sheet_name = [], columns = [''Product ID'', ''Product Name''],
      cells = [[Text ''a'', Text ''Reserve Bat'']]\<rparr>"

definition custom_bat_row :: row where
  "custom_bat_row =
     \<lparr>row_id = ''a'', created_at = 10,
      row_data = plain_product\<lparr>product_type := cricket_bat,
                   deep_customization := Some (Customization sample_customization)\<rparr>\<rparr>"

definition bare_bat_row :: row where
  "bare_bat_row =
     \<lparr>row_id = ''b'', created_at = 20,
      row_data = plain_product\<lparr>product_type := cricket_bat,
                   deep_customization := Some EmptyDict\<rparr>\<rparr>"

text \<open>
  The rows of the second sheet in the words of the specification: the records of the
  cricket bat type, here those of them that hold a customization, each giving the seven
  cells.
\<close>

definition customization_of :: "row \<Rightarrow> asset deep_custom option" where
  "customization_of p =
     (case deep_customization (row_data p) of
        Some (Customization d) \<Rightarrow> Some d
      | _ \<Rightarrow> None)"

definition customized_bat :: "row \<Rightarrow> bool" where
  "customized_bat p \<longleftrightarrow>
     product_type (row_data p) = cricket_bat \<and> customization_of p \<noteq> None"

definition bat_row :: "row \<Rightarrow> cell list" where
  "bat_row p =
     (case customization_of p of
        None \<Rightarrow> []
      | Some d \<Rightarrow>
          [Text (product_name (row_data p)), Text (sku (row_data p)),
           Text (heading (edition d)), Text (grains (edition d)), Text (grade (edition d)),
           Text (if laser_enabled (laser_engraving d) then ''Yes'' else ''No''),
           Number (price (laser_engraving d))])"

text \<open>
  A bat form that also carries an edition image and a laser image, and what the upload
  of the edition image returns when it is the second upload to draw an identifier.
\<close>

definition bat_form :: form where
  "bat_form =
     sample_form\<lparr>w_product_type := cricket_bat,
                 w_edition_image := Some (photo\<lparr>file_name := ''edition.png'', file_size := 2048\<rparr>),
                 w_laser_image := Some (photo\<lparr>file_name := ''laser.png'', file_size := 1024\<rparr>)\<rparr>"

definition edition_asset :: asset where
  "edition_asset =
     \<lparr>filename = ''edition.png'', path = ''products/edition/id1.png'',
      url = ''https://store.example/products/edition/id1.png''\<rparr>"

section \<open>Image validation and compression\<close>

text \<open>
  Claim C2, as the code has it. \<open>validate_image\<close> rejects every file larger than 5 MiB
  whatever its declared type, rejects every file whose declared type is none of
  \<open>image/png\<close>, \<open>image/jpeg\<close>, \<open>image/jpg\<close>, \<open>image/webp\<close> whatever its size, and accepts
  every file that passes both checks, with no warning.
\<close>

theorem validate_image_rejects_and_accepts:
  "(5 * 1024 * 1024 < file_size f \<longrightarrow> \<not> fst (validate_image (Some f))) \<and>
   (file_type f \<notin> {''image/png'', ''image/jpeg'', ''image/jpg'', ''image/webp''}
      \<longrightarrow> \<not> fst (validate_image (Some f))) \<and>
   (file_size f \<le> 5 * 1024 * 1024 \<and>
    file_type f \<in> {''image/png'', ''image/jpeg'', ''image/jpg'', ''image/webp''}
      \<longrightarrow> validate_image (Some f) = (True, []))"
  by (simp add: validate_image_def allowed_types_def)

theorem validate_image_rejects_and_accepts_witness:
  "\<not> fst (validate_image (Some (photo\<lparr>file_size := 6 * 1024 * 1024\<rparr>))) \<and>
   \<not> fst (validate_image (Some (photo\<lparr>file_type := ''image/gif''\<rparr>))) \<and>
   validate_image (Some photo) = (True, [])"
  using validate_image_rejects_and_accepts [of "photo\<lparr>file_size := 6 * 1024 * 1024\<rparr>"]
        validate_image_rejects_and_accepts [of "photo\<lparr>file_type := ''image/gif''\<rparr>"]
        validate_image_rejects_and_accepts [of photo]
  by (simp add: photo_def)

text \<open>
  Claim C2 as it is written names three allowed types. A file of 2048 bytes declared
  \<open>image/jpg\<close> is outside them and is accepted: \<open>allowed_types\<close> lists a fourth type.
\<close>

theorem validate_image_jpg_counterexample:
  "''image/jpg'' \<notin> {''image/png'', ''image/jpeg'', ''image/webp''} \<and>
   fst (validate_image (Some \<lparr>file_name = ''bat.jpg'', file_size = 2048,
                               file_type = ''image/jpg'', file_bytes = 1\<rparr>))"
  by (simp add: validate_image_def allowed_types_def)

text \<open>
  Claim C10. The size is checked before the type: a file larger than 5 MiB is rejected
  with the one warning that it is too large, whatever its declared type, so a file that
  is both too large and of a type not allowed is never reported for its type.
\<close>

theorem validate_image_size_first:
  "5 * 1024 * 1024 < file_size f \<Longrightarrow>
   validate_image (Some f) =
     (False, [Warning (file_name f @ '' is too large (max 5MB). Image skipped.'')])"
  by (simp add: validate_image_def)

theorem validate_image_size_first_witness:
  "file_type (photo\<lparr>file_size := 6 * 1024 * 1024, file_type := ''application/pdf''\<rparr>)
     \<notin> set allowed_types \<and>
   validate_image (Some (photo\<lparr>file_size := 6 * 1024 * 1024, file_type := ''application/pdf''\<rparr>)) =
     (False, [Warning (''bat.front.png is too large (max 5MB). Image skipped.'')])"
  using validate_image_size_first
          [of "photo\<lparr>file_size := 6 * 1024 * 1024, file_type := ''application/pdf''\<rparr>"]
  by (simp add: photo_def allowed_types_def)

text \<open>
  Claim C3, as the code has it. A file of at most 1 MiB is returned unchanged. A larger
  file that the library opens, converts (when its mode is \<open>RGBA\<close> or \<open>P\<close>, to \<open>RGB\<close>) and
  saves as JPEG at quality 85 is replaced by that JPEG, named after the file with the
  extension \<open>.jpg\<close>, whatever the number of bytes written: nothing compares it with a
  threshold. A larger file on which one of the three steps raises is returned unchanged.
\<close>

theorem compress_image_reencodes:
  "(file_size f \<le> 1 * 1024 * 1024 \<longrightarrow> compress_image l 1 (Some f) = (Some f, [])) \<and>
   (1 * 1024 * 1024 < file_size f \<and>
    Image_open l (file_bytes f) = Some img \<and>
    (if mode img \<in> {''RGBA'', ''P''} then convert l img ''RGB'' else Some img) = Some rgb \<and>
    save l rgb ''JPEG'' 85 True = Some (buf, nbytes)
      \<longrightarrow> fst (compress_image l 1 (Some f)) =
            Some \<lparr>file_name = rsplit_head (file_name f) @ ''.jpg'', file_size = nbytes,
                  file_type = ''image/jpeg'', file_bytes = buf\<rparr>) \<and>
   (1 * 1024 * 1024 < file_size f \<and>
    (Image_open l (file_bytes f) = None \<or>
     (\<exists>i. Image_open l (file_bytes f) = Some i \<and>
          (if mode i \<in> {''RGBA'', ''P''} then convert l i ''RGB'' else Some i) = None) \<or>
     (\<exists>i r. Image_open l (file_bytes f) = Some i \<and>
          (if mode i \<in> {''RGBA'', ''P''} then convert l i ''RGB'' else Some i) = Some r \<and>
          save l r ''JPEG'' 85 True = None))
      \<longrightarrow> compress_image l 1 (Some f) = (Some f, []))"
  by (auto simp: compress_image_def)

theorem compress_image_reencodes_witness:
  "compress_image sample_lib 1 (Some (photo\<lparr>file_size := 1024 * 1024\<rparr>)) =
     (Some (photo\<lparr>file_size := 1024 * 1024\<rparr>), []) \<and>
   fst (compress_image sample_lib 1 (Some photo)) =
     Some \<lparr>file_name = ''bat.front.jpg'', file_size = 6 * 1024 * 1024,
           file_type = ''image/jpeg'', file_bytes = 92\<rparr> \<and>
   compress_image sample_lib 1 (Some broken_photo) = (Some broken_photo, [])"
  using compress_image_reencodes [of "photo\<lparr>file_size := 1024 * 1024\<rparr>" sample_lib]
        compress_image_reencodes
          [of photo sample_lib "\<lparr>mode = ''RGBA'', pixels = 7\<rparr>" "\<lparr>mode = ''RGB'', pixels = 7\<rparr>"
              92 "6 * 1024 * 1024"]
        compress_image_reencodes [of broken_photo sample_lib]
  by (simp add: photo_def broken_photo_def sample_lib_def rsplit_head_def)

text \<open>
  Claim C3 as it is written says always. A file of 2 MiB declared \<open>image/png\<close> passes
  validation; its bytes are no picture, \<open>Image.open\<close> raises, and the file comes back as
  it was, still a PNG.
\<close>

theorem compress_image_unreadable_counterexample:
  "file_type broken_photo \<in> set allowed_types \<and>
   1 * 1024 * 1024 < file_size broken_photo \<and>
   fst (validate_image (Some broken_photo)) \<and>
   compress_image sample_lib 1 (Some broken_photo) = (Some broken_photo, []) \<and>
   file_type broken_photo \<noteq> ''image/jpeg''"
  by (simp add: compress_image_def sample_lib_def broken_photo_def validate_image_def
        allowed_types_def)

section \<open>The persistence functions\<close>

lemma remote_call_products: "products (snd (remote_call w)) = products w"
  by (simp add: remote_call_def split: list.splits)

lemma remote_call_Nil: "faults w = [] \<Longrightarrow> remote_call w = (None, w)"
  by (simp add: remote_call_def)


lemma order_created_at_desc:
  "sorted_wrt (\<lambda>a b. created_at b \<le> created_at a) (order_created_at True rows)"
proof -
  have "sorted (map created_at (sort_key created_at rows))"
    by (rule sorted_sort_key)
  then have "sorted_wrt (\<lambda>a b. created_at a \<le> created_at b) (sort_key created_at rows)"
    by (simp add: sorted_wrt_map)
  then show ?thesis
    by (simp add: order_created_at_def sorted_wrt_rev)
qed

lemma order_created_at_mset: "mset (order_created_at d rows) = mset rows"
  by (simp add: order_created_at_def)

text \<open>
  Claim C5. When the store answers, \<open>get_all_products_from_supabase\<close> returns the rows
  of the table, every one of them once, so \<open>N\<close> rows of a table of \<open>N\<close>, ordered by
  creation time with the newest first, and reports nothing; on an empty table it returns
  the empty list.
\<close>

theorem get_all_products_newest_first:
  assumes "fst (remote_call w) = None"
      and "get_all_products_from_supabase w = (rows, ns, w')"
  shows "sorted_wrt (\<lambda>a b. created_at b \<le> created_at a) rows \<and>
         mset rows = mset (products w) \<and>
         length rows = length (products w) \<and>
         ns = [] \<and>
         (products w = [] \<longrightarrow> rows = [])"
proof -
  obtain w1 where c: "remote_call w = (None, w1)"
    using assms(1) by (cases "remote_call w") simp
  have p: "products w1 = products w"
    using remote_call_products [of w] c by simp
  have r: "rows = order_created_at True (products w)" and n: "ns = []"
    using assms(2) c p by (simp_all add: get_all_products_from_supabase_def)
  have m: "mset rows = mset (products w)"
    using r by (simp add: order_created_at_mset)
  have l: "length rows = length (products w)"
    using m by (metis size_mset)
  show ?thesis
    using r n m l order_created_at_desc [of "products w"] by auto
qed

theorem get_all_products_newest_first_witness:
  "get_all_products_from_supabase
     (empty_world\<lparr>products := [stored_row ''a'' 10, stored_row ''b'' 30, stored_row ''c'' 20]\<rparr>) =
     ([stored_row ''b'' 30, stored_row ''c'' 20, stored_row ''a'' 10], [],
      empty_world\<lparr>products := [stored_row ''a'' 10, stored_row ''b'' 30, stored_row ''c'' 20]\<rparr>) \<and>
   sorted_wrt (\<lambda>a b. created_at b \<le> created_at a)
     [stored_row ''b'' 30, stored_row ''c'' 20, stored_row ''a'' 10] \<and>
   fst (get_all_products_from_supabase empty_world) = []"
proof -
  let ?w = "empty_world\<lparr>products := [stored_row ''a'' 10, stored_row ''b'' 30, stored_row ''c'' 20]\<rparr>"
  let ?rows = "[stored_row ''b'' 30, stored_row ''c'' 20, stored_row ''a'' 10]"
  have c: "fst (remote_call ?w) = None"
    by (simp add: remote_call_def empty_world_def)
  have g: "get_all_products_from_supabase ?w = (?rows, [], ?w)"
    by (simp add: get_all_products_from_supabase_def remote_call_def empty_world_def
          order_created_at_def stored_row_def)
  have c0: "fst (remote_call empty_world) = None"
    by (simp add: remote_call_def empty_world_def)
  have g0: "get_all_products_from_supabase empty_world =
              (fst (get_all_products_from_supabase empty_world),
               fst (snd (get_all_products_from_supabase empty_world)),
               snd (snd (get_all_products_from_supabase empty_world)))"
    by simp
  have e0: "products empty_world = []"
    by (simp add: empty_world_def)
  show ?thesis
    using get_all_products_newest_first [OF c g] get_all_products_newest_first [OF c0 g0] g e0
    by simp
qed

text \<open>
  Claim C6. When the store answers, \<open>delete_product_from_supabase\<close> returns \<open>True\<close> and
  reports nothing, whether a row had the identifier or not; with no such row the table
  is left as it was.
\<close>

theorem delete_reports_success:
  assumes "fst (remote_call w) = None"
  shows "fst (delete_product_from_supabase product_id w) \<and>
         fst (snd (delete_product_from_supabase product_id w)) = [] \<and>
         (product_id \<notin> row_id ` set (products w) \<longrightarrow>
            products (snd (snd (delete_product_from_supabase product_id w))) = products w)"
proof -
  obtain w1 where c: "remote_call w = (None, w1)"
    using assms by (cases "remote_call w") simp
  have p: "products w1 = products w"
    using remote_call_products [of w] c by simp
  have "product_id \<notin> row_id ` set (products w) \<Longrightarrow>
          filter (\<lambda>r. row_id r \<noteq> product_id) (products w) = products w"
    by (rule filter_True) auto
  then show ?thesis
    using c p by (simp add: delete_product_from_supabase_def)
qed

theorem delete_reports_success_witness:
  "fst (delete_product_from_supabase ''missing'' (empty_world\<lparr>products := [stored_row ''a'' 10]\<rparr>)) \<and>
   products (snd (snd (delete_product_from_supabase ''missing''
                         (empty_world\<lparr>products := [stored_row ''a'' 10]\<rparr>)))) =
     [stored_row ''a'' 10] \<and>
   fst (delete_product_from_supabase ''a'' (empty_world\<lparr>products := [stored_row ''a'' 10]\<rparr>)) \<and>
   products (snd (snd (delete_product_from_supabase ''a''
                         (empty_world\<lparr>products := [stored_row ''a'' 10]\<rparr>)))) = []"
proof -
  let ?w = "empty_world\<lparr>products := [stored_row ''a'' 10]\<rparr>"
  have c: "fst (remote_call ?w) = None"
    by (simp add: remote_call_def empty_world_def)
  have d: "products (snd (snd (delete_product_from_supabase ''a'' ?w))) = []"
    by (simp add: delete_product_from_supabase_def remote_call_def empty_world_def
          stored_row_def)
  show ?thesis
    using delete_reports_success [OF c, of "''missing''"] delete_reports_success [OF c, of "''a''"] d
    by (simp add: empty_world_def stored_row_def)
qed



section \<open>The save handler\<close>

lemmas sample_defs =
  sample_form_def sample_env_def sample_lib_def empty_world_def photo_def plain_product_def
  gallery_asset_def sample_customization_def sample_variation_def

lemmas handler_defs =
  save_to_database_def compile_product_data_def upload_image_to_supabase_def
  validate_image_def allowed_types_def compress_image_def save_product_to_supabase_def
  remote_call_def variations_data_def deep_custom_data_def upload_customization_def
  variable_product_def cricket_bat_def split_last_def

lemma run_simple:
  "fst (save_to_database sample_env True sample_form empty_world) =
     Submitted (plain_product\<lparr>gallery_images := [gallery_asset]\<rparr>)
       (Some \<lparr>row_id = ''id1'', created_at = 100,
              row_data = plain_product\<lparr>gallery_images := [gallery_asset]\<rparr>\<rparr>)"
  by (simp add: sample_defs handler_defs digits.simps Let_def)

lemma run_bat:
  "fst (save_to_database sample_env True (sample_form\<lparr>w_product_type := cricket_bat\<rparr>)
          empty_world) =
     Submitted (plain_product\<lparr>product_type := cricket_bat, gallery_images := [gallery_asset],
                  deep_customization := Some (Customization sample_customization)\<rparr>)
       (Some \<lparr>row_id = ''id1'', created_at = 100,
              row_data = plain_product\<lparr>product_type := cricket_bat,
                           gallery_images := [gallery_asset],
                           deep_customization := Some (Customization sample_customization)\<rparr>\<rparr>)"
  by (simp add: sample_defs handler_defs digits.simps Let_def)

lemma run_variable:
  "fst (save_to_database sample_env True (sample_form\<lparr>w_product_type := variable_product\<rparr>)
          empty_world) =
     Submitted (plain_product\<lparr>product_type := variable_product,
                  gallery_images := [gallery_asset], variations := Some [sample_variation]\<rparr>)
       (Some \<lparr>row_id = ''id1'', created_at = 100,
              row_data = plain_product\<lparr>product_type := variable_product,
                           gallery_images := [gallery_asset],
                           variations := Some [sample_variation]\<rparr>\<rparr>)"
  by (simp add: sample_defs handler_defs digits.simps Let_def)

lemma save_to_database_Submitted:
  assumes "fst (save_to_database e c f w) = Submitted pd r"
  shows "\<exists>m g v d t. pd = compile_product_data f m g v d t"
  using assms
  by (auto simp: save_to_database_def Let_def split: if_splits prod.splits) blast+

text \<open>
  Claim C1. In the record that the save handler hands to the store, \<open>variations\<close> is
  filled exactly for the type \<open>Variable Product\<close> and \<open>deep_customization\<close> exactly for
  the type \<open>Cricket Bat (Deep Customization)\<close>; the other of the two, and both for any
  other type, is \<open>None\<close>, not a list or a dictionary without entries; so the two are
  never filled together.
\<close>

theorem payloads_mutually_exclusive:
  assumes "fst (save_to_database e c f w) = Submitted pd r"
  shows "(product_type pd = variable_product \<longrightarrow>
            variations pd \<noteq> None \<and> deep_customization pd = None) \<and>
         (product_type pd = cricket_bat \<longrightarrow>
            deep_customization pd \<noteq> None \<and> variations pd = None) \<and>
         (product_type pd \<noteq> variable_product \<and> product_type pd \<noteq> cricket_bat \<longrightarrow>
            variations pd = None \<and> deep_customization pd = None) \<and>
         (variations pd = None \<or> deep_customization pd = None)"
proof -
  obtain m g v d t where pd: "pd = compile_product_data f m g v d t"
    using save_to_database_Submitted [OF assms] by blast
  have "variable_product \<noteq> cricket_bat"
    by (simp add: variable_product_def cricket_bat_def)
  then show ?thesis
    unfolding pd by (auto simp: compile_product_data_def)
qed

theorem payloads_mutually_exclusive_witness:
  "variations (plain_product\<lparr>product_type := variable_product,
                 gallery_images := [gallery_asset], variations := Some [sample_variation]\<rparr>)
     \<noteq> None \<and>
   deep_customization (plain_product\<lparr>product_type := variable_product,
                 gallery_images := [gallery_asset], variations := Some [sample_variation]\<rparr>)
     = None \<and>
   deep_customization (plain_product\<lparr>product_type := cricket_bat,
                 gallery_images := [gallery_asset],
                 deep_customization := Some (Customization sample_customization)\<rparr>) \<noteq> None \<and>
   variations (plain_product\<lparr>product_type := cricket_bat,
                 gallery_images := [gallery_asset],
                 deep_customization := Some (Customization sample_customization)\<rparr>) = None \<and>
   variations (plain_product\<lparr>gallery_images := [gallery_asset]\<rparr>) = None \<and>
   deep_customization (plain_product\<lparr>gallery_images := [gallery_asset]\<rparr>) = None"
  using payloads_mutually_exclusive [OF run_variable] payloads_mutually_exclusive [OF run_bat]
        payloads_mutually_exclusive [OF run_simple]
  by (simp add: plain_product_def variable_product_def cricket_bat_def)

lemma run_priced:
  "fst (save_to_database sample_env True
          (sample_form\<lparr>w_sale_price := 4500, w_weight := 12 / 10\<rparr>) empty_world) =
     Submitted (plain_product\<lparr>sale_price := Some 4500, weight := Some (12 / 10),
                  gallery_images := [gallery_asset]\<rparr>)
       (Some \<lparr>row_id = ''id1'', created_at = 100,
              row_data = plain_product\<lparr>sale_price := Some 4500, weight := Some (12 / 10),
                           gallery_images := [gallery_asset]\<rparr>\<rparr>)"
  by (simp add: sample_defs handler_defs digits.simps Let_def)

text \<open>
  Claim C8. In the record that the save handler hands to the store, a sale price of zero,
  which is also what the empty field holds, is stored as \<open>None\<close>, and so is a weight of
  zero; any other sale price or weight is stored as it was entered.
\<close>

theorem zero_price_weight_absent:
  assumes "fst (save_to_database e c f w) = Submitted pd r"
  shows "(w_sale_price f = 0 \<longrightarrow> sale_price pd = None) \<and>
         (w_weight f = 0 \<longrightarrow> weight pd = None) \<and>
         (w_sale_price f \<noteq> 0 \<longrightarrow> sale_price pd = Some (w_sale_price f)) \<and>
         (w_weight f \<noteq> 0 \<longrightarrow> weight pd = Some (w_weight f))"
proof -
  obtain m g v d t where pd: "pd = compile_product_data f m g v d t"
    using save_to_database_Submitted [OF assms] by blast
  show ?thesis
    unfolding pd by (simp add: compile_product_data_def)
qed

theorem zero_price_weight_absent_witness:
  "w_sale_price sample_form = 0 \<and> w_weight sample_form = 0 \<and>
   sale_price (plain_product\<lparr>gallery_images := [gallery_asset]\<rparr>) = None \<and>
   weight (plain_product\<lparr>gallery_images := [gallery_asset]\<rparr>) = None \<and>
   sale_price (plain_product\<lparr>sale_price := Some 4500, weight := Some (12 / 10),
                 gallery_images := [gallery_asset]\<rparr>) = Some 4500 \<and>
   weight (plain_product\<lparr>sale_price := Some 4500, weight := Some (12 / 10),
             gallery_images := [gallery_asset]\<rparr>) = Some (12 / 10)"
  using zero_price_weight_absent [OF run_simple] zero_price_weight_absent [OF run_priced]
  by (simp add: sample_form_def)

subsection \<open>What an upload does to the store\<close>

lemma carried_on_refl: "carried_on w w"
  by (simp add: carried_on_def)

lemma carried_on_trans: "carried_on a b \<Longrightarrow> carried_on b c \<Longrightarrow> carried_on a c"
  by (auto simp: carried_on_def)

lemma compress_image_Some: "\<exists>g ns. compress_image l m (Some f) = (Some g, ns)"
  by (auto simp: compress_image_def split: option.splits)

lemma upload_carried_on:
  "upload_image_to_supabase e file folder w = (r, ns, w') \<Longrightarrow> carried_on w w'"
  by (auto simp: upload_image_to_supabase_def carried_on_def Let_def remote_call_def
           split: option.splits prod.splits if_splits list.splits)

lemma upload_Some_path:
  "upload_image_to_supabase e file folder w = (Some a, ns, w') \<Longrightarrow> path a \<in> dom (bucket w')"
  by (auto simp: upload_image_to_supabase_def Let_def remote_call_def
           split: option.splits prod.splits if_splits list.splits)

lemma upload_rejected:
  "\<not> fst (validate_image (Some g)) \<Longrightarrow>
   fst (upload_image_to_supabase e (Some g) folder w) = None"
  by (cases "validate_image (Some g)") (simp add: upload_image_to_supabase_def)

lemma upload_fault:
  assumes "fst (validate_image (Some g))" and "faults w = Some msg # rest"
  shows "\<exists>ns w'. upload_image_to_supabase e (Some g) folder w = (None, ns, w') \<and>
                 faults w' = rest"
proof -
  obtain g' ns2 where c: "compress_image (lib e) 1 (Some g) = (Some g', ns2)"
    using compress_image_Some by blast
  obtain ns1 where v: "validate_image (Some g) = (True, ns1)"
    using assms(1) by (cases "validate_image (Some g)") simp
  show ?thesis
    using assms(2) c v
    by (simp add: upload_image_to_supabase_def Let_def remote_call_def)
qed

lemma upload_gallery_carried_on:
  "upload_gallery e imgs acc w = (g, ns, w') \<Longrightarrow> carried_on w w'"
proof (induction imgs arbitrary: acc w g ns w')
  case Nil
  then show ?case by (simp add: carried_on_refl)
next
  case (Cons img imgs)
  obtain r n1 w1 where u: "upload_image_to_supabase e (Some img) ''products/gallery'' w = (r, n1, w1)"
    by (metis prod_cases3)
  obtain g2 n2 w2 where
    l: "upload_gallery e imgs (case r of None \<Rightarrow> acc | Some a \<Rightarrow> acc @ [a]) w1 = (g2, n2, w2)"
    by (metis prod_cases3)
  have "w' = w2" using Cons.prems u l by simp
  then show ?case
    using carried_on_trans [OF upload_carried_on [OF u] Cons.IH [OF l]] by simp
qed

lemma upload_gallery_paths:
  "upload_gallery e imgs acc w = (g, ns, w') \<Longrightarrow>
   \<forall>a \<in> set acc. path a \<in> dom (bucket w) \<Longrightarrow>
   \<forall>a \<in> set g. path a \<in> dom (bucket w')"
proof (induction imgs arbitrary: acc w g ns w')
  case Nil
  then show ?case by simp
next
  case (Cons img imgs)
  obtain r n1 w1 where u: "upload_image_to_supabase e (Some img) ''products/gallery'' w = (r, n1, w1)"
    by (metis prod_cases3)
  obtain g2 n2 w2 where
    l: "upload_gallery e imgs (case r of None \<Rightarrow> acc | Some a \<Rightarrow> acc @ [a]) w1 = (g2, n2, w2)"
    by (metis prod_cases3)
  have eq: "g = g2" "w' = w2" using Cons.prems(1) u l by simp_all
  have sub: "dom (bucket w) \<subseteq> dom (bucket w1)"
    using upload_carried_on [OF u] by (simp add: carried_on_def)
  have "\<forall>a \<in> set (case r of None \<Rightarrow> acc | Some a \<Rightarrow> acc @ [a]). path a \<in> dom (bucket w1)"
  proof (cases r)
    case None
    then show ?thesis using Cons.prems(2) sub by auto
  next
    case (Some a)
    then show ?thesis using Cons.prems(2) sub upload_Some_path [of e "Some img" _ w a n1 w1] u
      by auto
  qed
  then show ?case using Cons.IH [OF l] eq by simp
qed

lemma upload_variations_carried_on:
  "upload_variations e vars w = (vs, ns, w') \<Longrightarrow> carried_on w w'"
proof (induction vars arbitrary: w vs ns w')
  case Nil
  then show ?case by (simp add: carried_on_refl)
next
  case (Cons var vars)
  obtain r n1 w1 where
    u: "(case var_image var of None \<Rightarrow> (None, [], w)
         | Some img \<Rightarrow> upload_image_to_supabase e (Some img) ''products/variations'' w)
        = (r, n1, w1)"
    by (metis prod_cases3)
  obtain v2 n2 w2 where l: "upload_variations e vars w1 = (v2, n2, w2)"
    by (metis prod_cases3)
  have "carried_on w w1"
    using u by (cases "var_image var") (auto simp: carried_on_refl dest: upload_carried_on)
  moreover have "w' = w2" using Cons.prems u l by simp
  ultimately show ?case
    using carried_on_trans Cons.IH [OF l] by blast
qed

lemma upload_customization_carried_on:
  assumes "upload_customization e d w = (d', ns, w')"
  shows "carried_on w w'"
proof -
  obtain r1 n1 w1 where
    u1: "(case ed_image (edition d) of None \<Rightarrow> (None, [], w)
          | Some img \<Rightarrow> upload_image_to_supabase e (Some img) ''products/edition'' w)
         = (r1, n1, w1)"
    by (metis prod_cases3)
  obtain r2 n2 w2 where
    u2: "(case laser_image (laser_engraving d) of None \<Rightarrow> (None, [], w1)
          | Some img \<Rightarrow> upload_image_to_supabase e (Some img) ''products/laser'' w1)
         = (r2, n2, w2)"
    by (metis prod_cases3)
  have a: "carried_on w w1"
    using u1 by (cases "ed_image (edition d)") (auto simp: carried_on_refl dest: upload_carried_on)
  have b: "carried_on w1 w2"
    using u2 by (cases "laser_image (laser_engraving d)")
      (auto simp: carried_on_refl dest: upload_carried_on)
  have "w' = w2"
    using assms u1 u2 by (simp add: upload_customization_def)
  then show ?thesis
    using carried_on_trans [OF a b] by simp
qed

lemma upload_option:
  "(case x of None \<Rightarrow> (None, [], w)
    | Some img \<Rightarrow> upload_image_to_supabase e (Some img) folder w)
   = upload_image_to_supabase e x folder w"
  by (cases x) (simp_all add: upload_image_to_supabase_def)

lemma upload_outcome:
  assumes "upload_image_to_supabase e x folder w = (r, ns, w')"
  shows "succeeded [x] (faults w) = [r \<noteq> None] \<and> faults w' = left_over [x] (faults w)"
proof (cases x)
  case None
  then show ?thesis
    using assms by (simp add: upload_image_to_supabase_def)
next
  case (Some g)
  show ?thesis
  proof (cases "fst (validate_image (Some g))")
    case True
    obtain g' ns2 where c: "compress_image (lib e) 1 (Some g) = (Some g', ns2)"
      using compress_image_Some by blast
    obtain ns1 where v: "validate_image (Some g) = (True, ns1)"
      using True by (cases "validate_image (Some g)") simp
    show ?thesis
      using assms Some True c v
      by (cases "faults w")
         (auto simp: upload_image_to_supabase_def Let_def remote_call_def split: option.splits)
  next
    case False
    obtain ns1 where v: "validate_image (Some g) = (False, ns1)"
      using False by (cases "validate_image (Some g)") simp
    show ?thesis
      using assms Some False v by (simp add: upload_image_to_supabase_def)
  qed
qed

lemma succeeded_append:
  "succeeded (xs @ ys) s = succeeded xs s @ succeeded ys (left_over xs s)"
  by (induction xs s rule: succeeded.induct) (auto split: list.splits)

lemma left_over_append: "left_over (xs @ ys) s = left_over ys (left_over xs s)"
  by (induction xs s rule: left_over.induct) (auto split: list.splits)

lemma length_succeeded: "length (succeeded xs s) = length xs"
  by (induction xs s rule: succeeded.induct) (auto split: list.splits)

lemma carried_on_path:
  "carried_on w w' \<Longrightarrow> p \<in> dom (bucket w) \<Longrightarrow> p \<in> dom (bucket w')"
  by (auto simp: carried_on_def)

lemma upload_gallery_outcome:
  "upload_gallery e imgs acc w = (g, ns, w') \<Longrightarrow>
   length g = length acc + length (filter (\<lambda>b. b) (succeeded (map Some imgs) (faults w))) \<and>
   faults w' = left_over (map Some imgs) (faults w)"
proof (induction imgs arbitrary: acc w g ns w')
  case Nil
  then show ?case by simp
next
  case (Cons img imgs)
  obtain r n1 w1 where u: "upload_image_to_supabase e (Some img) ''products/gallery'' w = (r, n1, w1)"
    by (metis prod_cases3)
  obtain g2 n2 w2 where
    l: "upload_gallery e imgs (case r of None \<Rightarrow> acc | Some a \<Rightarrow> acc @ [a]) w1 = (g2, n2, w2)"
    by (metis prod_cases3)
  have eq: "g = g2" "w' = w2"
    using Cons.prems u l by simp_all
  have o: "succeeded [Some img] (faults w) = [r \<noteq> None]"
          "faults w1 = left_over [Some img] (faults w)"
    using upload_outcome [OF u] by simp_all
  have sp: "succeeded (map Some (img # imgs)) (faults w) =
              (r \<noteq> None) # succeeded (map Some imgs) (faults w1)"
    using succeeded_append [of "[Some img]" "map Some imgs" "faults w"] o by simp
  have lo: "left_over (map Some (img # imgs)) (faults w) = left_over (map Some imgs) (faults w1)"
    using left_over_append [of "[Some img]" "map Some imgs" "faults w"] o by simp
  have ih: "length g2 = length (case r of None \<Rightarrow> acc | Some a \<Rightarrow> acc @ [a])
                        + length (filter (\<lambda>b. b) (succeeded (map Some imgs) (faults w1)))"
           "faults w2 = left_over (map Some imgs) (faults w1)"
    using Cons.IH [OF l] by simp_all
  show ?case
    unfolding sp lo using ih eq by (cases r) simp_all
qed

lemma upload_variations_outcome:
  "upload_variations e vars w = (vs, ns, w') \<Longrightarrow>
   succeeded (map var_image vars) (faults w) = map (\<lambda>v. var_image v \<noteq> None) vs \<and>
   faults w' = left_over (map var_image vars) (faults w) \<and>
   (\<forall>a. Some a \<in> set (map var_image vs) \<longrightarrow> path a \<in> dom (bucket w'))"
proof (induction vars arbitrary: w vs ns w')
  case Nil
  then show ?case by auto
next
  case (Cons var vars)
  obtain r n1 w1 where
    u: "upload_image_to_supabase e (var_image var) ''products/variations'' w = (r, n1, w1)"
    by (metis prod_cases3)
  obtain v2 n2 w2 where l: "upload_variations e vars w1 = (v2, n2, w2)"
    by (metis prod_cases3)
  have eq: "vs = \<lparr>var_name = var_name var, var_price = var_price var, var_sku = var_sku var,
                  var_stock = var_stock var, var_image = r\<rparr> # v2" "w' = w2"
    using Cons.prems u l by (simp_all add: upload_option)
  have o: "succeeded [var_image var] (faults w) = [r \<noteq> None]"
          "faults w1 = left_over [var_image var] (faults w)"
    using upload_outcome [OF u] by simp_all
  have sp: "succeeded (map var_image (var # vars)) (faults w) =
              (r \<noteq> None) # succeeded (map var_image vars) (faults w1)"
    using succeeded_append [of "[var_image var]" "map var_image vars" "faults w"] o by simp
  have lo: "left_over (map var_image (var # vars)) (faults w) =
              left_over (map var_image vars) (faults w1)"
    using left_over_append [of "[var_image var]" "map var_image vars" "faults w"] o by simp
  have c12: "carried_on w1 w2"
    using upload_variations_carried_on [OF l] .
  have pr: "\<forall>a. r = Some a \<longrightarrow> path a \<in> dom (bucket w2)"
    using upload_Some_path u carried_on_path [OF c12] by blast
  show ?case
    unfolding sp lo using Cons.IH [OF l] eq pr by auto
qed

lemma upload_customization_outcome:
  assumes "upload_customization e d w = (d', ns, w')"
  shows "succeeded [ed_image (edition d), laser_image (laser_engraving d)] (faults w) =
           [ed_image (edition d') \<noteq> None, laser_image (laser_engraving d') \<noteq> None] \<and>
         faults w' = left_over [ed_image (edition d), laser_image (laser_engraving d)] (faults w) \<and>
         (\<forall>a. Some a \<in> {ed_image (edition d'), laser_image (laser_engraving d')}
              \<longrightarrow> path a \<in> dom (bucket w'))"
proof -
  obtain r1 n1 w1 where
    u1: "upload_image_to_supabase e (ed_image (edition d)) ''products/edition'' w = (r1, n1, w1)"
    by (metis prod_cases3)
  obtain r2 n2 w2 where
    u2: "upload_image_to_supabase e (laser_image (laser_engraving d)) ''products/laser'' w1
           = (r2, n2, w2)"
    by (metis prod_cases3)
  have eq: "ed_image (edition d') = r1" "laser_image (laser_engraving d') = r2" "w' = w2"
    using assms u1 u2 by (auto simp: upload_customization_def upload_option)
  have o1: "succeeded [ed_image (edition d)] (faults w) = [r1 \<noteq> None]"
           "faults w1 = left_over [ed_image (edition d)] (faults w)"
    using upload_outcome [OF u1] by simp_all
  have o2: "succeeded [laser_image (laser_engraving d)] (faults w1) = [r2 \<noteq> None]"
           "faults w2 = left_over [laser_image (laser_engraving d)] (faults w1)"
    using upload_outcome [OF u2] by simp_all
  have sp: "succeeded [ed_image (edition d), laser_image (laser_engraving d)] (faults w) =
              [r1 \<noteq> None, r2 \<noteq> None]"
    using succeeded_append [of "[ed_image (edition d)]" "[laser_image (laser_engraving d)]" "faults w"]
          o1 o2 by simp
  have lo: "left_over [ed_image (edition d), laser_image (laser_engraving d)] (faults w) = faults w2"
    using left_over_append [of "[ed_image (edition d)]" "[laser_image (laser_engraving d)]" "faults w"]
          o1 o2 by simp
  have p1: "\<forall>a. r1 = Some a \<longrightarrow> path a \<in> dom (bucket w2)"
    using upload_Some_path u1 carried_on_path [OF upload_carried_on [OF u2]] by blast
  have p2: "\<forall>a. r2 = Some a \<longrightarrow> path a \<in> dom (bucket w2)"
    using upload_Some_path u2 by blast
  show ?thesis
    unfolding sp lo using eq p1 p2 by auto
qed

lemma save_product_outcome:
  "save_product_to_supabase e pd w = (r, ns, w') \<Longrightarrow>
   bucket w' = bucket w \<and>
   (case faults w of
      Some msg # rest \<Rightarrow> r = None \<and> products w' = products w \<and> faults w' = rest
    | _ \<Rightarrow> (\<exists>new. row_data new = pd \<and> products w' = products w @ [new] \<and>
                   r = (if returns_data w then Some new else None)))"
  by (auto simp: save_product_to_supabase_def remote_call_def Let_def
           split: list.splits option.splits)

lemma save_to_database_steps:
  assumes "w_product_name f \<noteq> []" and "w_regular_price f \<noteq> 0"
  shows "\<exists>m n1 w1 g n2 w2 v n3 w3 d n4 w4 r n5 w5.
           upload_image_to_supabase e (w_main_image f) ''products/main'' w = (m, n1, w1) \<and>
           upload_gallery e (w_gallery_images f) [] w1 = (g, n2, w2) \<and>
           (if w_product_type f = variable_product
            then upload_variations e (variations_data f) w2 else ([], [], w2)) = (v, n3, w3) \<and>
           (if w_product_type f = cricket_bat \<and> w_enable_deep_custom f
            then (case deep_custom_data f of
                    Customization d \<Rightarrow>
                      (case upload_customization e d w3 of
                         (d', ns, w') \<Rightarrow> (Customization d', ns, w'))
                  | EmptyDict \<Rightarrow> (EmptyDict, [], w3))
            else (EmptyDict, [], w3)) = (d, n4, w4) \<and>
           save_product_to_supabase e (compile_product_data f m g v d (now w4)) w4
             = (r, n5, w5) \<and>
           fst (save_to_database e True f w)
             = Submitted (compile_product_data f m g v d (now w4)) r \<and>
           snd (snd (save_to_database e True f w)) = w5"
proof -
  obtain m n1 w1 where
    s1: "upload_image_to_supabase e (w_main_image f) ''products/main'' w = (m, n1, w1)"
    by (metis prod_cases3)
  obtain g n2 w2 where s2: "upload_gallery e (w_gallery_images f) [] w1 = (g, n2, w2)"
    by (metis prod_cases3)
  obtain v n3 w3 where
    s3: "(if w_product_type f = variable_product
          then upload_variations e (variations_data f) w2 else ([], [], w2)) = (v, n3, w3)"
    by (metis prod_cases3)
  obtain d n4 w4 where
    s4: "(if w_product_type f = cricket_bat \<and> w_enable_deep_custom f
          then (case deep_custom_data f of
                  Customization d \<Rightarrow>
                    (case upload_customization e d w3 of
                       (d', ns, w') \<Rightarrow> (Customization d', ns, w'))
                | EmptyDict \<Rightarrow> (EmptyDict, [], w3))
          else (EmptyDict, [], w3)) = (d, n4, w4)"
    by (metis prod_cases3)
  obtain r n5 w5 where
    s5: "save_product_to_supabase e (compile_product_data f m g v d (now w4)) w4 = (r, n5, w5)"
    by (metis prod_cases3)
  have "fst (save_to_database e True f w)
          = Submitted (compile_product_data f m g v d (now w4)) r \<and>
        snd (snd (save_to_database e True f w)) = w5"
    using assms s1 s2 s3 s4 s5 by (simp add: save_to_database_def Let_def)
  then show ?thesis
    using s1 s2 s3 s4 s5 by blast
qed

lemma variations_step:
  assumes "(if w_product_type f = variable_product
            then upload_variations e (variations_data f) w2 else ([], [], w2)) = (v, n3, w3)"
  shows "succeeded (if w_product_type f = variable_product
                    then map w_var_image (w_variations f) else []) (faults w2)
           = map (\<lambda>i. i \<noteq> None) (variation_images (compile_product_data f m g v d t)) \<and>
         faults w3 = left_over (if w_product_type f = variable_product
                                then map w_var_image (w_variations f) else []) (faults w2) \<and>
         carried_on w2 w3 \<and>
         (\<forall>a. Some a \<in> set (variation_images (compile_product_data f m g v d t))
              \<longrightarrow> path a \<in> dom (bucket w3))"
proof (cases "w_product_type f = variable_product")
  case True
  have u: "upload_variations e (variations_data f) w2 = (v, n3, w3)"
    using assms True by simp
  have i: "map var_image (variations_data f) = map w_var_image (w_variations f)"
    using True by (simp add: variations_data_def o_def)
  have vi: "variation_images (compile_product_data f m g v d t) = map var_image v"
    using True by (simp add: variation_images_def compile_product_data_def)
  show ?thesis
    using upload_variations_outcome [OF u] upload_variations_carried_on [OF u] True
    unfolding i vi by (simp add: o_def)
next
  case False
  have "variation_images (compile_product_data f m g v d t) = []"
    using False by (simp add: variation_images_def compile_product_data_def)
  then show ?thesis
    using assms False by (auto simp: carried_on_refl)
qed

lemma customization_step:
  assumes "(if w_product_type f = cricket_bat \<and> w_enable_deep_custom f
            then (case deep_custom_data f of
                    Customization d \<Rightarrow>
                      (case upload_customization e d w3 of
                         (d', ns, w') \<Rightarrow> (Customization d', ns, w'))
                  | EmptyDict \<Rightarrow> (EmptyDict, [], w3))
            else (EmptyDict, [], w3)) = (d, n4, w4)"
  shows "succeeded (if w_product_type f = cricket_bat \<and> w_enable_deep_custom f
                    then [w_edition_image f, if w_enable_laser f then w_laser_image f else None]
                    else []) (faults w3)
           = map (\<lambda>i. i \<noteq> None) (customization_images (compile_product_data f m g v d t)) \<and>
         faults w4 = left_over (if w_product_type f = cricket_bat \<and> w_enable_deep_custom f
                                then [w_edition_image f,
                                      if w_enable_laser f then w_laser_image f else None]
                                else []) (faults w3) \<and>
         carried_on w3 w4 \<and>
         (\<forall>a. Some a \<in> set (customization_images (compile_product_data f m g v d t))
              \<longrightarrow> path a \<in> dom (bucket w4))"
proof (cases "w_product_type f = cricket_bat \<and> w_enable_deep_custom f")
  case True
  obtain d0 where d0: "deep_custom_data f = Customization d0"
    and e0: "ed_image (edition d0) = w_edition_image f"
    and l0: "laser_image (laser_engraving d0)
               = (if w_enable_laser f then w_laser_image f else None)"
    using True by (simp add: deep_custom_data_def)
  obtain d' n w' where u: "upload_customization e d0 w3 = (d', n, w')"
    by (metis prod_cases3)
  have eq: "d = Customization d'" "w4 = w'"
    using assms True d0 u by simp_all
  have ci: "customization_images (compile_product_data f m g v d t)
              = [ed_image (edition d'), laser_image (laser_engraving d')]"
    using True eq by (simp add: customization_images_def compile_product_data_def)
  show ?thesis
    using upload_customization_outcome [OF u] upload_customization_carried_on [OF u] True eq
    unfolding ci e0 l0 by simp
next
  case False
  have eq: "d = EmptyDict" "w4 = w3"
    using assms False by auto
  have "customization_images (compile_product_data f m g v d t) = []"
    using eq by (simp add: customization_images_def compile_product_data_def)
  then show ?thesis
    using False eq by (auto simp: carried_on_refl)
qed

text \<open>
  Claim C4. Once the name and the price are filled in and the store is connected, the
  save handler always hands a record to the store. Each image entry of the form is tried
  once, in order, on its own: the main image, every variation image, the edition image
  and the laser image of the record are \<open>None\<close> exactly where the entry was missing,
  rejected by validation (a file larger than 5 MiB for instance) or failed in its storage
  call, and hold the stored asset where it succeeded; the gallery of the record holds as
  many assets as gallery entries succeeded. Whatever failed among the uploads, the insert
  is tried with the outcomes they left over: unless the insert's own call raises, the row
  with this record is added to the table (and is handed back when the store returns it).
  No object leaves the bucket, and every asset that the record names is in the bucket
  afterwards.
\<close>

theorem upload_failure_keeps_save:
  assumes "w_product_name f \<noteq> []" and "w_regular_price f \<noteq> 0"
  shows "\<exists>pd r bg.
           fst (save_to_database e True f w) = Submitted pd r \<and>
           succeeded (sent_files f) (faults w) =
             [main_image pd \<noteq> None] @ bg @ map (\<lambda>i. i \<noteq> None) (variation_images pd)
               @ map (\<lambda>i. i \<noteq> None) (customization_images pd) \<and>
           length bg = length (w_gallery_images f) \<and>
           length (filter (\<lambda>b. b) bg) = length (gallery_images pd) \<and>
           (case left_over (sent_files f) (faults w) of
              Some msg # rest \<Rightarrow>
                r = None \<and>
                products (snd (snd (save_to_database e True f w))) = products w
            | _ \<Rightarrow>
                (\<exists>new. row_data new = pd \<and>
                   products (snd (snd (save_to_database e True f w))) = products w @ [new] \<and>
                   r = (if returns_data w then Some new else None))) \<and>
           dom (bucket w) \<subseteq> dom (bucket (snd (snd (save_to_database e True f w)))) \<and>
           (\<forall>a. Some a \<in> set (image_fields pd)
                \<longrightarrow> path a \<in> dom (bucket (snd (snd (save_to_database e True f w)))))"
proof -
  obtain m n1 w1 g n2 w2 v n3 w3 d n4 w4 r n5 w5 where
    s1: "upload_image_to_supabase e (w_main_image f) ''products/main'' w = (m, n1, w1)" and
    s2: "upload_gallery e (w_gallery_images f) [] w1 = (g, n2, w2)" and
    s3: "(if w_product_type f = variable_product
          then upload_variations e (variations_data f) w2 else ([], [], w2)) = (v, n3, w3)" and
    s4: "(if w_product_type f = cricket_bat \<and> w_enable_deep_custom f
          then (case deep_custom_data f of
                  Customization d \<Rightarrow>
                    (case upload_customization e d w3 of
                       (d', ns, w') \<Rightarrow> (Customization d', ns, w'))
                | EmptyDict \<Rightarrow> (EmptyDict, [], w3))
          else (EmptyDict, [], w3)) = (d, n4, w4)" and
    s5: "save_product_to_supabase e (compile_product_data f m g v d (now w4)) w4 = (r, n5, w5)" and
    out: "fst (save_to_database e True f w) = Submitted (compile_product_data f m g v d (now w4)) r" and
    fin: "snd (snd (save_to_database e True f w)) = w5"
    using save_to_database_steps [OF assms, of e w] by blast
  let ?pd = "compile_product_data f m g v d (now w4)"
  let ?F1 = "[w_main_image f]"
  let ?F2 = "map Some (w_gallery_images f)"
  let ?F3 = "if w_product_type f = variable_product then map w_var_image (w_variations f) else []"
  let ?F4 = "if w_product_type f = cricket_bat \<and> w_enable_deep_custom f
             then [w_edition_image f, if w_enable_laser f then w_laser_image f else None]
             else []"
  let ?bg = "succeeded ?F2 (faults w1)"
  have mi: "main_image ?pd = m" and gi: "gallery_images ?pd = g"
    by (simp_all add: compile_product_data_def)
  have o1: "succeeded ?F1 (faults w) = [m \<noteq> None]" and l1: "faults w1 = left_over ?F1 (faults w)"
    using upload_outcome [OF s1] by simp_all
  have o2: "length g = length (filter (\<lambda>b. b) ?bg)" and l2: "faults w2 = left_over ?F2 (faults w1)"
    using upload_gallery_outcome [OF s2] by simp_all
  have o3: "succeeded ?F3 (faults w2) = map (\<lambda>i. i \<noteq> None) (variation_images ?pd)"
    and l3: "faults w3 = left_over ?F3 (faults w2)"
    and c23: "carried_on w2 w3"
    and p3: "\<forall>a. Some a \<in> set (variation_images ?pd) \<longrightarrow> path a \<in> dom (bucket w3)"
    using variations_step [OF s3, of m g d "now w4"] by simp_all
  have o4: "succeeded ?F4 (faults w3) = map (\<lambda>i. i \<noteq> None) (customization_images ?pd)"
    and l4: "faults w4 = left_over ?F4 (faults w3)"
    and c34: "carried_on w3 w4"
    and p4: "\<forall>a. Some a \<in> set (customization_images ?pd) \<longrightarrow> path a \<in> dom (bucket w4)"
    using customization_step [OF s4, of m g v "now w4"] by simp_all
  have c01: "carried_on w w1"
    using upload_carried_on [OF s1] .
  have c12: "carried_on w1 w2"
    using upload_gallery_carried_on [OF s2] .
  have c24: "carried_on w2 w4"
    using carried_on_trans [OF c23 c34] .
  have c14: "carried_on w1 w4"
    using carried_on_trans [OF c12 c24] .
  have c04: "carried_on w w4"
    using carried_on_trans [OF c01 c14] .
  have sf: "sent_files f = ?F1 @ ?F2 @ ?F3 @ ?F4"
    by (simp add: sent_files_def)
  have q1: "succeeded (sent_files f) (faults w) =
              [main_image ?pd \<noteq> None] @ ?bg @ map (\<lambda>i. i \<noteq> None) (variation_images ?pd)
                @ map (\<lambda>i. i \<noteq> None) (customization_images ?pd)"
    unfolding sf succeeded_append left_over_append
    using o1 o3 o4 l1 l2 l3 mi by simp
  have lf: "left_over (sent_files f) (faults w) = faults w4"
    unfolding sf left_over_append using l1 l2 l3 l4 by simp
  have q2: "length ?bg = length (w_gallery_images f)"
    by (simp add: length_succeeded)
  have q3: "length (filter (\<lambda>b. b) ?bg) = length (gallery_images ?pd)"
    using o2 gi by simp
  have b5: "bucket w5 = bucket w4"
    using save_product_outcome [OF s5] by simp
  have q4: "case left_over (sent_files f) (faults w) of
              Some msg # rest \<Rightarrow> r = None \<and> products w5 = products w
            | _ \<Rightarrow>
                (\<exists>new. row_data new = ?pd \<and> products w5 = products w @ [new] \<and>
                   r = (if returns_data w then Some new else None))"
    using save_product_outcome [OF s5] c04 unfolding lf
    by (auto simp: carried_on_def split: list.splits option.splits)
  have q5: "dom (bucket w) \<subseteq> dom (bucket w5)"
    using c04 b5 by (simp add: carried_on_def)
  have pm: "\<forall>a. m = Some a \<longrightarrow> path a \<in> dom (bucket w4)"
    using upload_Some_path s1 carried_on_path [OF c14] by blast
  have pg: "\<forall>a \<in> set g. path a \<in> dom (bucket w4)"
    using upload_gallery_paths [OF s2] carried_on_path [OF c24] by simp
  have pv: "\<forall>a. Some a \<in> set (variation_images ?pd) \<longrightarrow> path a \<in> dom (bucket w4)"
    using p3 carried_on_path [OF c34] by blast
  have q6: "\<forall>a. Some a \<in> set (image_fields ?pd) \<longrightarrow> path a \<in> dom (bucket w5)"
    unfolding b5 image_fields_def using pm pg pv p4 mi gi by auto
  show ?thesis
    unfolding fin
    by (rule exI [of _ ?pd], rule exI [of _ r], rule exI [of _ ?bg])
       (insert out q1 q2 q3 q4 q5 q6, intro conjI, assumption+)
qed

lemma run_gallery_fault:
  "fst (save_to_database sample_env True sample_form
          (empty_world\<lparr>faults := [Some ''timeout'']\<rparr>)) =
     Submitted plain_product (Some (stored_row ''id1'' 100))"
  by (simp add: sample_defs handler_defs digits.simps Let_def stored_row_def)

lemma run_bat_faults:
  "fst (save_to_database sample_env True bat_form
          (empty_world\<lparr>faults := [Some ''timeout'', None, Some ''quota'']\<rparr>)) =
     Submitted
       (plain_product\<lparr>product_type := cricket_bat,
          deep_customization := Some (Customization
            (sample_customization\<lparr>edition :=
               (edition sample_customization)\<lparr>ed_image := Some edition_asset\<rparr>\<rparr>))\<rparr>)
       (Some \<lparr>row_id = ''id3'', created_at = 100,
              row_data = plain_product\<lparr>product_type := cricket_bat,
                deep_customization := Some (Customization
                  (sample_customization\<lparr>edition :=
                     (edition sample_customization)\<lparr>ed_image := Some edition_asset\<rparr>\<rparr>))\<rparr>\<rparr>)"
  by (simp add: sample_defs handler_defs digits.simps Let_def bat_form_def edition_asset_def)

lemma run_insert_fault:
  "fst (save_to_database sample_env True sample_form
          (empty_world\<lparr>faults := [None, Some ''down'']\<rparr>)) =
     Submitted (plain_product\<lparr>gallery_images := [gallery_asset]\<rparr>) None"
  by (simp add: sample_defs handler_defs digits.simps Let_def)

theorem upload_failure_keeps_save_witness:
  "w_product_name sample_form \<noteq> [] \<and> w_regular_price sample_form \<noteq> 0 \<and>
   w_product_name bat_form \<noteq> [] \<and> w_regular_price bat_form \<noteq> 0 \<and>
   succeeded (sent_files sample_form) [Some ''timeout''] = [False, False] \<and>
   products (snd (snd (save_to_database sample_env True sample_form
                         (empty_world\<lparr>faults := [Some ''timeout'']\<rparr>)))) =
     [stored_row ''id1'' 100] \<and>
   succeeded (sent_files bat_form) [Some ''timeout'', None, Some ''quota''] =
     [False, False, True, False] \<and>
   products (snd (snd (save_to_database sample_env True bat_form
                         (empty_world\<lparr>faults := [Some ''timeout'', None, Some ''quota'']\<rparr>)))) =
     [\<lparr>row_id = ''id3'', created_at = 100,
       row_data = plain_product\<lparr>product_type := cricket_bat,
         deep_customization := Some (Customization
           (sample_customization\<lparr>edition :=
              (edition sample_customization)\<lparr>ed_image := Some edition_asset\<rparr>\<rparr>))\<rparr>\<rparr>] \<and>
   path edition_asset
     \<in> dom (bucket (snd (snd (save_to_database sample_env True bat_form
                (empty_world\<lparr>faults := [Some ''timeout'', None, Some ''quota'']\<rparr>))))) \<and>
   left_over (sent_files sample_form) [None, Some ''down''] = [Some ''down''] \<and>
   products (snd (snd (save_to_database sample_env True sample_form
                         (empty_world\<lparr>faults := [None, Some ''down'']\<rparr>)))) = [] \<and>
   path gallery_asset
     \<in> dom (bucket (snd (snd (save_to_database sample_env True sample_form
                (empty_world\<lparr>faults := [None, Some ''down'']\<rparr>)))))"
proof -
  let ?w1 = "empty_world\<lparr>faults := [Some ''timeout'']\<rparr>"
  let ?w2 = "empty_world\<lparr>faults := [Some ''timeout'', None, Some ''quota'']\<rparr>"
  let ?w3 = "empty_world\<lparr>faults := [None, Some ''down'']\<rparr>"
  have n: "w_product_name sample_form \<noteq> []" and p: "w_regular_price sample_form \<noteq> 0"
    by (simp_all add: sample_form_def)
  have n': "w_product_name bat_form \<noteq> []" and p': "w_regular_price bat_form \<noteq> 0"
    by (simp_all add: sample_form_def bat_form_def)
  have w: "products ?w1 = []" "returns_data ?w1" "faults ?w1 = [Some ''timeout'']"
          "products ?w2 = []" "returns_data ?w2" "faults ?w2 = [Some ''timeout'', None, Some ''quota'']"
          "products ?w3 = []" "returns_data ?w3" "faults ?w3 = [None, Some ''down'']"
    by (simp_all add: empty_world_def)
  have s1: "succeeded (sent_files sample_form) [Some ''timeout''] = [False, False]"
    and l1: "left_over (sent_files sample_form) [Some ''timeout''] = []"
    and l3: "left_over (sent_files sample_form) [None, Some ''down''] = [Some ''down'']"
    by (simp_all add: sent_files_def sample_form_def photo_def validate_image_def
          allowed_types_def variable_product_def cricket_bat_def)
  have s2: "succeeded (sent_files bat_form) [Some ''timeout'', None, Some ''quota'']
              = [False, False, True, False]"
    and l2: "left_over (sent_files bat_form) [Some ''timeout'', None, Some ''quota''] = []"
    by (simp_all add: sent_files_def sample_form_def bat_form_def photo_def validate_image_def
          allowed_types_def variable_product_def cricket_bat_def)
  have a: "products (snd (snd (save_to_database sample_env True sample_form ?w1))) =
             [stored_row ''id1'' 100]"
    using upload_failure_keeps_save [OF n p, of sample_env ?w1] run_gallery_fault w l1
    by auto
  have i2: "Some edition_asset \<in> set (image_fields
              (plain_product\<lparr>product_type := cricket_bat,
                 deep_customization := Some (Customization
                   (sample_customization\<lparr>edition :=
                      (edition sample_customization)\<lparr>ed_image := Some edition_asset\<rparr>\<rparr>))\<rparr>))"
    by (simp add: image_fields_def customization_images_def)
  have b: "products (snd (snd (save_to_database sample_env True bat_form ?w2))) =
             [\<lparr>row_id = ''id3'', created_at = 100,
               row_data = plain_product\<lparr>product_type := cricket_bat,
                 deep_customization := Some (Customization
                   (sample_customization\<lparr>edition :=
                      (edition sample_customization)\<lparr>ed_image := Some edition_asset\<rparr>\<rparr>))\<rparr>\<rparr>] \<and>
           path edition_asset
             \<in> dom (bucket (snd (snd (save_to_database sample_env True bat_form ?w2))))"
    using upload_failure_keeps_save [OF n' p', of sample_env ?w2] run_bat_faults w l2 i2
    by auto
  have i3: "Some gallery_asset
              \<in> set (image_fields (plain_product\<lparr>gallery_images := [gallery_asset]\<rparr>))"
    by (simp add: image_fields_def)
  have c: "products (snd (snd (save_to_database sample_env True sample_form ?w3))) = [] \<and>
           path gallery_asset
             \<in> dom (bucket (snd (snd (save_to_database sample_env True sample_form ?w3))))"
    using upload_failure_keeps_save [OF n p, of sample_env ?w3] run_insert_fault w l3 i3
    by auto
  show ?thesis
    using n p n' p' s1 s2 l3 a b c by simp
qed

section \<open>The spreadsheet export\<close>

lemma bat_data_filter:
  "bat_data ps = map bat_row (filter (\<lambda>p. customization_of p \<noteq> None) ps)"
proof (induction ps)
  case Nil
  then show ?case by simp
next
  case (Cons p ps)
  then show ?case
    by (simp add: customization_of_def bat_row_def split: option.splits custom_dict.splits)
qed

lemma filter_customized:
  "filter (\<lambda>p. customization_of p \<noteq> None)
     (filter (\<lambda>p. product_type (row_data p) = cricket_bat) ps) = filter customized_bat ps"
  by (induction ps) (auto simp: customized_bat_def)

text \<open>
  Claim C9, as the code has it. The workbook opens with the basic table as the sheet
  \<open>Products\<close>. A second sheet, \<open>Bat Customization\<close>, follows exactly when some record of
  the cricket bat type holds a customization that is not empty; it has the seven columns
  and one row for each such record, in the order of the records, and no row for any other
  record. When no record is of that kind, and so when no record has the cricket bat type,
  there is no second sheet.
\<close>

theorem excel_export_bat_sheet:
  "(filter customized_bat ps = [] \<longrightarrow>
      excel_export df ps = [df\<lparr>sheet_name := ''Products''\<rparr>]) \<and>
   (filter customized_bat ps \<noteq> [] \<longrightarrow>
      excel_export df ps =
        [df\<lparr>sheet_name := ''Products''\<rparr>,
         \<lparr>sheet_name = ''Bat Customization'',
          columns = [''Product Name'', ''SKU'', ''Edition Heading'', ''Grains'', ''Grade'',
                     ''Laser Engraving'', ''Laser Price''],
          cells = map bat_row (filter customized_bat ps)\<rparr>]) \<and>
   ((\<forall>p \<in> set ps. product_type (row_data p) \<noteq> cricket_bat) \<longrightarrow>
      excel_export df ps = [df\<lparr>sheet_name := ''Products''\<rparr>])"
proof -
  let ?bats = "filter (\<lambda>p. product_type (row_data p) = cricket_bat) ps"
  have d: "bat_data ?bats = map bat_row (filter customized_bat ps)"
    by (simp only: bat_data_filter filter_customized)
  have e: "filter customized_bat ps = [] \<longleftrightarrow> bat_data ?bats = []"
    using d by simp
  have n: "?bats = [] \<Longrightarrow> filter customized_bat ps = []"
    by (auto simp: filter_empty_conv customized_bat_def)
  have a: "filter customized_bat ps = [] \<longrightarrow>
             excel_export df ps = [df\<lparr>sheet_name := ''Products''\<rparr>]"
    using e by (simp add: excel_export_def Let_def)
  have b: "filter customized_bat ps \<noteq> [] \<longrightarrow>
             excel_export df ps =
               [df\<lparr>sheet_name := ''Products''\<rparr>,
                \<lparr>sheet_name = ''Bat Customization'',
                 columns = [''Product Name'', ''SKU'', ''Edition Heading'', ''Grains'', ''Grade'',
                            ''Laser Engraving'', ''Laser Price''],
                 cells = map bat_row (filter customized_bat ps)\<rparr>]"
    using e d n by (auto simp: excel_export_def Let_def bat_columns_def)
  have c: "(\<forall>p \<in> set ps. product_type (row_data p) \<noteq> cricket_bat) \<longrightarrow>
             excel_export df ps = [df\<lparr>sheet_name := ''Products''\<rparr>]"
    by (simp add: excel_export_def Let_def filter_empty_conv)
  show ?thesis
    using a b c by blast
qed

theorem excel_export_bat_sheet_witness:
  "excel_export basic_table [bare_bat_row] = [basic_table\<lparr>sheet_name := ''Products''\<rparr>] \<and>
   excel_export basic_table [stored_row ''c'' 30, custom_bat_row, bare_bat_row] =
     [basic_table\<lparr>sheet_name := ''Products''\<rparr>,
      \<lparr>sheet_name = ''Bat Customization'',
       columns = [''Product Name'', ''SKU'', ''Edition Heading'', ''Grains'', ''Grade'',
                  ''Laser Engraving'', ''Laser Price''],
       cells = [[Text ''Reserve Bat'', Text ''BAT-001'', Text ''Reserve Edition'',
                 Text ''6-8 Grains'', Text ''Grade A+'', Text ''Yes'', Number 5]]\<rparr>] \<and>
   excel_export basic_table [stored_row ''c'' 30] = [basic_table\<lparr>sheet_name := ''Products''\<rparr>]"
  using excel_export_bat_sheet [of "[bare_bat_row]" basic_table]
        excel_export_bat_sheet [of "[stored_row ''c'' 30, custom_bat_row, bare_bat_row]" basic_table]
        excel_export_bat_sheet [of "[stored_row ''c'' 30]" basic_table]
  by (simp add: customized_bat_def customization_of_def bat_row_def bare_bat_row_def
        custom_bat_row_def stored_row_def plain_product_def sample_customization_def
        cricket_bat_def)

text \<open>
  Claim C9 as it is written adds the second sheet as soon as a record has the cricket bat
  type. A bat saved with the customization disabled has that type and the empty
  dictionary as its \<open>deep_customization\<close>; exported alone it gives one sheet.
\<close>

theorem excel_export_bare_bat_counterexample:
  "product_type (row_data bare_bat_row) = cricket_bat \<and>
   length (excel_export basic_table [bare_bat_row]) = 1"
  by (simp add: excel_export_def bare_bat_row_def Let_def)

text \<open>
  The row of the counterexample is one the application writes: the save handler, run on
  the bat form with the customization switched off, stores the empty dictionary.
\<close>

lemma bare_bat_is_saved:
  "\<exists>r. fst (save_to_database sample_env True
               (sample_form\<lparr>w_product_type := cricket_bat, w_enable_deep_custom := False\<rparr>)
               empty_world) =
        Submitted (plain_product\<lparr>product_type := cricket_bat,
                     gallery_images := [gallery_asset],
                     deep_customization := Some EmptyDict\<rparr>) r"
  by (simp add: sample_defs handler_defs digits.simps Let_def)

end
